theory Spec2Isabelle
  imports Complex_Main "HOL-Library.AList"
begin


section \<open>Python values used by the scoring and traffic-analysis engine\<close>

text \<open>
  The engine is Python. Its integers are unbounded (\<open>int\<close>); its floating-point numbers
  are modelled as exact rationals (\<open>rat\<close>), so a comparison or a rounding is the one of
  the exact value. Dictionaries whose key order is observable are association lists in
  insertion order; a key that may be absent is an \<open>option\<close>, and \<open>d.get(k, v)\<close> is the
  case distinction on it.
\<close>

subsection \<open>Rounding: \<open>round(x, 2)\<close> and \<open>int(x)\<close>\<close>

definition round_half_even :: "rat \<Rightarrow> int" where
  "round_half_even x =
     (let f = \<lfloor>x\<rfloor>; d = x - of_int f
      in if d < 1 / 2 then f
         else if 1 / 2 < d then f + 1
         else if even f then f else f + 1)"

definition py_round :: "nat \<Rightarrow> rat \<Rightarrow> rat" where
  "py_round nd x = of_int (round_half_even (x * 10 ^ nd)) / 10 ^ nd"

definition py_int :: "rat \<Rightarrow> int" where
  "py_int x = (if 0 \<le> x then \<lfloor>x\<rfloor> else \<lceil>x\<rceil>)"

subsection \<open>Rendering numbers in f-strings\<close>

definition digit_char :: "nat \<Rightarrow> char" where
  "digit_char d = ''0123456789'' ! (d mod 10)"

function show_nat :: "nat \<Rightarrow> string" where
  "show_nat n = (if n < 10 then [digit_char n] else show_nat (n div 10) @ [digit_char n])"
  by pat_completeness auto
termination
  by (relation "measure id") auto

declare show_nat.simps [simp del]

text \<open>\<open>f'{i}'\<close> for an integer.\<close>

definition show_int :: "int \<Rightarrow> string" where
  "show_int i = (if i < 0 then ''-'' @ show_nat (nat (- i)) else show_nat (nat i))"

text \<open>\<open>f'{i:02d}'\<close>: zero padding to width two, the sign counted in the width.\<close>

definition fmt_02d :: "int \<Rightarrow> string" where
  "fmt_02d i =
     (if i < 0 then ''-'' @ show_nat (nat (- i))
      else if i < 10 then ''0'' @ show_nat (nat i)
      else show_nat (nat i))"

text \<open>\<open>f'{x:.1f}'\<close>: one decimal, ties to even.\<close>

definition fmt_1f :: "rat \<Rightarrow> string" where
  "fmt_1f x =
     (let t = nat (round_half_even (\<bar>x\<bar> * 10))
      in (if x < 0 then ''-'' else '''') @ show_nat (t div 10) @ ''.'' @ [digit_char t])"

text \<open>\<open>sep.join(xs)\<close>.\<close>

fun join :: "string \<Rightarrow> string list \<Rightarrow> string" where
  "join sep [] = []"
| "join sep [x] = x"
| "join sep (x # y # ys) = x @ sep @ join sep (y # ys)"

text \<open>\<open>max(xs)\<close> and \<open>min(xs)\<close> on a non-empty list; the caller guards the empty one.\<close>

fun py_max :: "'a::linorder list \<Rightarrow> 'a" where
  "py_max [] = undefined"
| "py_max (x # xs) = fold max xs x"

fun py_min :: "'a::linorder list \<Rightarrow> 'a" where
  "py_min [] = undefined"
| "py_min (x # xs) = fold min xs x"

section \<open>Data model\<close>

text \<open>
  A policy reference as \<open>mongodb_analyzer._parse_policies\<close> builds it: the class-name
  suffix and the \<open>enabled\<close> flag, which the scorer reads with \<open>p.get('enabled', True)\<close>.
\<close>

record policy =
  ptype :: string
  enabled :: "bool option"

text \<open>
  One of \<open>client_ssl\<close> / \<open>backend_ssl\<close>; \<open>non_ssl_names\<close> holds the environment names
  (client) or the addresses (backend) of the entries without TLS.
\<close>

record ssl_info =
  total :: int
  ssl_count :: int
  all_ssl :: bool
  non_ssl_names :: "string list"

record api_config =
  request_policies :: "policy list"
  response_policies :: "policy list"
  error_policies :: "policy list"
  client_ssl :: "ssl_info option"
  backend_ssl :: "ssl_info option"

text \<open>One entry of the scanner's \<open>sensitive_keywords\<close> mapping.\<close>

record keyword_info =
  count :: int
  percentage :: rat
  in_headers :: int
  in_body :: int
  kw_exists :: bool

text \<open>
  The dictionary \<open>check_sensitive_fields\<close> returns. Its three return statements do not
  build the same keys, so every key is optional: \<open>None\<close> is a key the dictionary lacks.
\<close>

record sensitive_exposure =
  err :: "string option"
  total_logs_checked :: "int option"
  sensitive_keywords :: "(string \<times> keyword_info) list option"
  has_sensitive_data :: "bool option"
  total_logs :: "int option"
  sensitive_keywords_found :: "(string \<times> keyword_info) list option"

text \<open>The per-API record \<open>_parse_traffic_stats\<close> stores under the API id.\<close>

record traffic_stats =
  api_name :: string
  total_requests :: int
  avg_requests_per_hour :: rat
  max_requests_per_hour :: int
  max_requests_per_minute :: int
  peak_hour :: "string option"
  peak_hours :: "int list"
  unique_ips :: int
  unique_users :: int
  top_ips :: "(string \<times> int) list"
  top_users :: "(string \<times> int) list"
  avg_response_time_ms :: rat
  status_codes :: "(int \<times> int) list"
  error_count :: int
  error_rate :: rat
  success_rate :: rat

text \<open>
  What the scorer is handed (\<open>app.py\<close>): \<open>traffic_stats_dict.get(api_id, {})\<close>, that is the
  aggregator's record or the empty dictionary (\<open>None\<close>), with the scanner's result stored
  under \<open>'sensitive_data'\<close>.
\<close>

record scorer_stats =
  stats :: "traffic_stats option"
  sensitive_data :: "sensitive_exposure option"

record recommendation =
  severity :: string
  category :: string
  message :: string
  action :: string

record score_report =
  total_score :: rat
  security_level :: string
  component_scores :: "(string \<times> rat) list"
  recommendations :: "recommendation list"

section \<open>\<open>security_scorer.py\<close>\<close>

text \<open>\<open>traffic_stats.get(key, default)\<close> for each key the scorer reads.\<close>

definition stat :: "(traffic_stats \<Rightarrow> 'a) \<Rightarrow> 'a \<Rightarrow> scorer_stats \<Rightarrow> 'a" where
  "stat field dflt s = (case stats s of None \<Rightarrow> dflt | Some r \<Rightarrow> field r)"

definition all_policies :: "api_config \<Rightarrow> policy list" where
  "all_policies c = request_policies c @ response_policies c @ error_policies c"

definition is_enabled :: "policy \<Rightarrow> bool" where
  "is_enabled p = (case enabled p of None \<Rightarrow> True | Some b \<Rightarrow> b)"

text \<open>\<open>any(p['type'] in types and p.get('enabled', True) for p in all_policies)\<close>.\<close>

definition has_policy :: "string list \<Rightarrow> api_config \<Rightarrow> bool" where
  "has_policy types c = list_ex (\<lambda>p. ptype p \<in> set types \<and> is_enabled p) (all_policies c)"

definition score_ip_whitelist :: "api_config \<Rightarrow> scorer_stats \<Rightarrow> rat \<times> recommendation list" where
  "score_ip_whitelist c s =
     (if has_policy [''PolicyIpWhite''] c then (100, [])
      else
        (let n = stat unique_ips 0 s
         in if 0 < n \<and> n \<le> 10
            then (0, [\<lparr>severity = ''medium'', category = ''ip_whitelist'',
                       message = ''API has '' @ show_int n
                         @ '' unique IPs but no IP whitelist configured. Consider adding IP whitelist policy.'',
                       action = ''Add PolicyIpWhite to restrict access to known IPs''\<rparr>])
            else (0, [])))"

definition score_throttling :: "api_config \<Rightarrow> scorer_stats \<Rightarrow> rat \<times> recommendation list" where
  "score_throttling c s =
     (if has_policy [''PolicyApiBasedThrottling'', ''PolicyEndpointRateLimit''] c then (100, [])
      else
        (let m = stat max_requests_per_hour 0 s;
             lim = show_int (py_int (of_int m * (6 / 5)))
         in if 1000 < m
            then (0, [\<lparr>severity = ''high'', category = ''throttling'',
                       message = ''High traffic API ('' @ show_int m
                         @ '' req/hour) without throttling. Risk of abuse.'',
                       action = ''Add throttling policy with limit ~'' @ lim @ '' req/hour''\<rparr>])
            else if 0 < m
            then (0, [\<lparr>severity = ''low'', category = ''throttling'',
                       message = ''No throttling policy configured.'',
                       action = ''Consider adding throttling policy with limit ~'' @ lim
                         @ '' req/hour''\<rparr>])
            else (0, [])))"

definition score_quota :: "api_config \<Rightarrow> scorer_stats \<Rightarrow> rat \<times> recommendation list" where
  "score_quota c s =
     (if has_policy [''PolicyApiBasedQuota''] c then (100, [])
      else if 10000 < stat total_requests 0 s
      then (50, [\<lparr>severity = ''medium'', category = ''quota'',
                  message = ''High-volume API without quota limits.'',
                  action = ''Consider adding quota policy for cost control and fair usage''\<rparr>])
      else (50, []))"

definition auth_policy_types :: "string list" where
  "auth_policy_types =
     [''PolicyApiAuthentication'', ''PolicyBasicAuthentication'',
      ''PolicyJwtAuthentication'', ''PolicyOauth2Authentication'',
      ''PolicyMTLSAuthentication'', ''PolicyDigestAuthentication'']"

definition auth_policies :: "api_config \<Rightarrow> policy list" where
  "auth_policies c =
     filter (\<lambda>p. ptype p \<in> set auth_policy_types \<and> is_enabled p) (all_policies c)"

text \<open>
  The score starts at 0 and the \<open>if\<close>/\<open>elif\<close> chain over the enabled authentication
  types has no final \<open>else\<close>: a type none of its branches names leaves the 0 in place.
\<close>

definition score_authentication :: "api_config \<Rightarrow> rat \<times> recommendation list" where
  "score_authentication c =
     (let auth_types = map ptype (auth_policies c)
      in if auth_types = []
         then (0, [\<lparr>severity = ''critical'', category = ''authentication'',
                     message = ''No authentication policy configured. API is publicly accessible.'',
                     action = ''Add authentication policy (OAuth2, JWT, or API Key recommended)''\<rparr>])
         else if ''PolicyOauth2Authentication'' \<in> set auth_types
                 \<or> ''PolicyJwtAuthentication'' \<in> set auth_types then (100, [])
         else if ''PolicyMTLSAuthentication'' \<in> set auth_types then (100, [])
         else if ''PolicyApiAuthentication'' \<in> set auth_types then (75, [])
         else if ''PolicyBasicAuthentication'' \<in> set auth_types
         then (50, [\<lparr>severity = ''medium'', category = ''authentication'',
                     message = ''Using Basic Auth. Consider upgrading to OAuth2 or JWT.'',
                     action = ''Upgrade to stronger authentication method''\<rparr>])
         else (0, []))"

text \<open>\<open>', '.join([f"{h:02d}:00" for h in sorted(peak_hours)])\<close>.\<close>

definition peak_hours_str :: "int list \<Rightarrow> string" where
  "peak_hours_str hs = join '', '' (map (\<lambda>h. fmt_02d h @ '':00'') (sort hs))"

definition hours_range_str :: "int list \<Rightarrow> string" where
  "hours_range_str hs = fmt_02d (py_min hs) @ '':00-'' @ fmt_02d (py_max hs + 1) @ '':00''"

text \<open>\<open>set(peak_hours).issubset(set(range(8, 19)))\<close>.\<close>

definition in_business_hours :: "int list \<Rightarrow> bool" where
  "in_business_hours hs = list_all (\<lambda>h. 8 \<le> h \<and> h < 19) hs"

definition score_allowed_hours :: "api_config \<Rightarrow> scorer_stats \<Rightarrow> rat \<times> recommendation list" where
  "score_allowed_hours c s =
     (if has_policy [''PolicyAllowedHours''] c then (100, [])
      else
        (let n = stat total_requests 0 s; hs = stat peak_hours [] s
         in if 100 < n \<and> hs \<noteq> []
            then
              (if in_business_hours hs
               then (70, [\<lparr>severity = ''low'', category = ''allowed_hours'',
                           message = ''API traffic is concentrated in business hours (peak: ''
                             @ peak_hours_str hs
                             @ ''). Consider restricting access to business hours only.'',
                           action = ''Add PolicyAllowedHours to restrict access to ''
                             @ hours_range_str hs\<rparr>])
               else if length hs \<le> 8
               then (75, [\<lparr>severity = ''low'', category = ''allowed_hours'',
                           message = ''API traffic is concentrated in specific hours (peak: ''
                             @ peak_hours_str hs @ ''). Consider time-based access restriction.'',
                           action = ''Add PolicyAllowedHours to restrict access to ''
                             @ hours_range_str hs\<rparr>])
               else (100, []))
            else (100, [])))"

definition score_traffic_anomaly :: "scorer_stats \<Rightarrow> rat \<times> recommendation list" where
  "score_traffic_anomaly s =
     (let avg_per_hour = stat avg_requests_per_hour 0 s;
          max_per_hour = stat max_requests_per_hour 0 s
      in if 0 < avg_per_hour
         then
           (let spike_ratio = of_int max_per_hour / avg_per_hour
            in if 10 < spike_ratio
               then (50, [\<lparr>severity = ''high'', category = ''anomaly'',
                           message = ''Severe traffic spike detected ('' @ fmt_1f spike_ratio
                             @ ''x average). Possible attack or misconfiguration.'',
                           action = ''Investigate traffic patterns and consider adding rate limiting''\<rparr>])
               else if 5 < spike_ratio
               then (70, [\<lparr>severity = ''medium'', category = ''anomaly'',
                           message = ''Significant traffic spike detected ('' @ fmt_1f spike_ratio
                             @ ''x average).'',
                           action = ''Monitor traffic patterns and ensure adequate throttling''\<rparr>])
               else (100, []))
         else (100, []))"

definition score_error_rate :: "scorer_stats \<Rightarrow> rat \<times> recommendation list" where
  "score_error_rate s =
     (let e = stat error_rate 0 s
      in if 20 < e
         then (30, [\<lparr>severity = ''critical'', category = ''errors'',
                     message = ''Very high error rate ('' @ fmt_1f e @ ''%). Service may be failing.'',
                     action = ''Investigate backend service health and error causes''\<rparr>])
         else if 10 < e
         then (60, [\<lparr>severity = ''high'', category = ''errors'',
                     message = ''High error rate ('' @ fmt_1f e @ ''%).'',
                     action = ''Review error logs and improve error handling''\<rparr>])
         else if 5 < e
         then (80, [\<lparr>severity = ''medium'', category = ''errors'',
                     message = ''Elevated error rate ('' @ fmt_1f e @ ''%).'',
                     action = ''Monitor error trends and investigate common failures''\<rparr>])
         else (100, []))"

text \<open>\<open>api_config.get('client_ssl', {})\<close> followed by the \<open>.get\<close> of each key.\<close>

definition ssl_or_empty :: "ssl_info option \<Rightarrow> ssl_info" where
  "ssl_or_empty i =
     (case i of None \<Rightarrow> \<lparr>total = 0, ssl_count = 0, all_ssl = False, non_ssl_names = []\<rparr>
      | Some x \<Rightarrow> x)"

text \<open>The score of one side and whether its recommendation is due.\<close>

definition ssl_side_score :: "ssl_info \<Rightarrow> rat \<times> bool" where
  "ssl_side_score i =
     (if 0 < total i
      then (if all_ssl i then (100, False)
            else (of_int (ssl_count i) / of_int (total i) * 100, non_ssl_names i \<noteq> []))
      else (100, False))"

definition score_ssl_tls :: "api_config \<Rightarrow> rat \<times> recommendation list" where
  "score_ssl_tls c =
     (let client = ssl_or_empty (client_ssl c); backend = ssl_or_empty (backend_ssl c);
          (client_score, client_rec) = ssl_side_score client;
          (backend_score, backend_rec) = ssl_side_score backend
      in (py_round 2 (client_score * (6 / 10) + backend_score * (4 / 10)),
          (if client_rec
           then [\<lparr>severity = ''high'', category = ''ssl_tls'',
                   message = ''Client connections without SSL/TLS detected in: ''
                     @ join '', '' (take 3 (non_ssl_names client)),
                   action = ''Enable HTTPS for all client-facing endpoints to encrypt data in transit''\<rparr>]
           else [])
          @ (if backend_rec
             then [\<lparr>severity = ''medium'', category = ''ssl_tls'',
                     message = ''Backend connections without SSL/TLS: ''
                       @ join '', '' (take 3 (non_ssl_names backend)),
                     action = ''Use HTTPS for backend service connections to ensure end-to-end encryption''\<rparr>]
             else [])))"

text \<open>The seven-bucket penalty table, keyed by the maximum exposure percentage.\<close>

definition logging_bucket :: "rat \<Rightarrow> rat \<times> string" where
  "logging_bucket max_percentage =
     (if 80 < max_percentage then (10, ''critical'')
      else if 50 < max_percentage then (20, ''critical'')
      else if 20 < max_percentage then (40, ''high'')
      else if 10 < max_percentage then (50, ''high'')
      else if 5 < max_percentage then (60, ''medium'')
      else if 1 < max_percentage then (70, ''low'')
      else (80, ''low''))"

definition score_logging :: "api_config \<Rightarrow> scorer_stats \<Rightarrow> rat \<times> recommendation list" where
  "score_logging c s =
     (let has = (case sensitive_data s of None \<Rightarrow> False
                 | Some d \<Rightarrow> (case has_sensitive_data d of None \<Rightarrow> False | Some b \<Rightarrow> b));
          kws = (case sensitive_data s of None \<Rightarrow> []
                 | Some d \<Rightarrow> (case sensitive_keywords d of None \<Rightarrow> [] | Some m \<Rightarrow> m));
          checked = (case sensitive_data s of None \<Rightarrow> 0
                     | Some d \<Rightarrow> (case total_logs_checked d of None \<Rightarrow> 0 | Some n \<Rightarrow> n));
          keyword_list = map (\<lambda>(k, i). k @ '' ('' @ fmt_1f (percentage i) @ ''%)'')
                           (filter (\<lambda>(k, i). 0 < percentage i) kws)
      in if has \<and> keyword_list \<noteq> []
         then
           (let (score, sev) = logging_bucket (py_max (map (\<lambda>(k, i). percentage i) kws))
            in (score, [\<lparr>severity = sev, category = ''logging'',
                         message = ''Sensitive data detected in logs: ''
                           @ join '', '' (take 5 keyword_list)
                           @ ''. Checked '' @ show_int checked @ '' logs.'',
                         action = ''Configure log masking/filtering to prevent sensitive data (TC, phone, password, etc.) from being logged''\<rparr>]))
         else (100, []))"

definition get_security_level :: "rat \<Rightarrow> string" where
  "get_security_level score =
     (if 90 \<le> score then ''Excellent''
      else if 75 \<le> score then ''Good''
      else if 60 \<le> score then ''Fair''
      else if 40 \<le> score then ''Poor''
      else ''Critical'')"

text \<open>The nine components in evaluation order, each with its score and recommendations.\<close>

definition components :: "api_config \<Rightarrow> scorer_stats \<Rightarrow> (string \<times> rat \<times> recommendation list) list" where
  "components c s =
     [(''ip_whitelist_coverage'', score_ip_whitelist c s),
      (''throttling_configured'', score_throttling c s),
      (''quota_configured'', score_quota c s),
      (''authentication_strength'', score_authentication c),
      (''allowed_hours'', score_allowed_hours c s),
      (''traffic_anomaly'', score_traffic_anomaly s),
      (''error_rate'', score_error_rate s),
      (''ssl_tls_status'', score_ssl_tls c),
      (''logging_status'', score_logging c s)]"

text \<open>
  The loop \<open>for component, score in scores.items(): total_score += score * weight\<close> with
  \<open>weight = self.weights.get(component, 0)\<close>.
\<close>

definition weight_of :: "(string \<rightharpoonup> rat) \<Rightarrow> string \<Rightarrow> rat" where
  "weight_of weights component = (case weights component of None \<Rightarrow> 0 | Some w \<Rightarrow> w)"

definition weighted_total :: "(string \<rightharpoonup> rat) \<Rightarrow> (string \<times> rat) list \<Rightarrow> rat" where
  "weighted_total weights scores =
     fold (\<lambda>(component, score) total. total + score * weight_of weights component) scores 0"

text \<open>
  \<open>calculate_api_score\<close>. The level is taken from the sum as accumulated; the report stores
  the sum rounded to two decimals. The \<open>calculated_at\<close> time stamp is left out.
\<close>

definition calculate_api_score :: "(string \<rightharpoonup> rat) \<Rightarrow> api_config \<Rightarrow> scorer_stats \<Rightarrow> score_report" where
  "calculate_api_score weights c s =
     (let comps = components c s;
          scores = map (\<lambda>(name, score, recs). (name, score)) comps;
          t = weighted_total weights scores
      in \<lparr>total_score = py_round 2 t,
          security_level = get_security_level t,
          component_scores = scores,
          recommendations = concat (map (\<lambda>(name, score, recs). recs) comps)\<rparr>)"

section \<open>\<open>elasticsearch_analyzer.py\<close>\<close>

subsection \<open>String operations\<close>

text \<open>
  Characters are bytes; \<open>lower\<close> and the white space test are the ASCII part of
  \<open>str.lower\<close> and \<open>str.isspace\<close>.
\<close>

definition lower_char :: "char \<Rightarrow> char" where
  "lower_char c =
     (let n = (of_char c :: nat) in if 65 \<le> n \<and> n \<le> 90 then char_of (n + 32) else c)"

definition lower :: "string \<Rightarrow> string" where
  "lower s = map lower_char s"

definition is_space :: "char \<Rightarrow> bool" where
  "is_space c = (let n = (of_char c :: nat) in (9 \<le> n \<and> n \<le> 13) \<or> (28 \<le> n \<and> n \<le> 32))"

definition strip :: "string \<Rightarrow> string" where
  "strip s = rev (dropWhile is_space (rev (dropWhile is_space s)))"

text \<open>\<open>s.split(c)\<close> for a one-character separator: never the empty list.\<close>

fun split_on :: "char \<Rightarrow> string \<Rightarrow> string list" where
  "split_on c [] = [[]]"
| "split_on c (x # xs) =
     (if x = c then [] # split_on c xs
      else (case split_on c xs of [] \<Rightarrow> [[x]] | p # ps \<Rightarrow> (x # p) # ps))"

text \<open>\<open>k in s\<close> on strings: \<open>k\<close> occurs in \<open>s\<close> as a contiguous substring.\<close>

fun py_in :: "string \<Rightarrow> string \<Rightarrow> bool" where
  "py_in k [] = (k = [])"
| "py_in k (x # xs) = (take (length k) (x # xs) = k \<or> py_in k xs)"

text \<open>
  \<open>int(s)\<close> on a string: surrounding white space, an optional sign, then decimal digits
  in which single underscores may separate digits. \<open>None\<close> is the \<open>ValueError\<close>.
\<close>

definition is_digit :: "char \<Rightarrow> bool" where
  "is_digit c = (let n = (of_char c :: nat) in 48 \<le> n \<and> n \<le> 57)"

definition digit_val :: "char \<Rightarrow> nat" where
  "digit_val c = of_char c - 48"

fun digits_value :: "nat \<Rightarrow> string \<Rightarrow> nat option" where
  "digits_value acc [] = Some acc"
| "digits_value acc [c] = (if is_digit c then Some (acc * 10 + digit_val c) else None)"
| "digits_value acc (c # d # ds) =
     (if is_digit c then digits_value (acc * 10 + digit_val c) (d # ds)
      else if c = CHR ''_'' \<and> is_digit d then digits_value (acc * 10 + digit_val d) ds
      else None)"

definition int_of_str :: "string \<Rightarrow> int option" where
  "int_of_str s =
     (let t = strip s;
          neg = (case t of [] \<Rightarrow> False | c # cs \<Rightarrow> c = CHR ''-'');
          body = (case t of [] \<Rightarrow> [] | c # cs \<Rightarrow> if c = CHR ''-'' \<or> c = CHR ''+'' then cs else t)
      in case body of
           [] \<Rightarrow> None
         | c # cs \<Rightarrow>
             if is_digit c
             then map_option (\<lambda>n. if neg then - int n else int n) (digits_value (digit_val c) cs)
             else None)"

subsection \<open>The aggregation result\<close>

text \<open>One bucket of the hourly date histogram.\<close>

record hour_bucket =
  key_as_string :: "string option"
  h_doc_count :: "int option"

text \<open>
  One bucket of the \<open>apis\<close> terms aggregation. A sub-aggregation that is read with
  \<open>.get(name, {}).get('buckets', [])\<close> is its bucket list; one read with
  \<open>.get(name, {}).get('value', 0)\<close> or \<open>.get('doc_count', 0)\<close> is the optional number.
\<close>

record api_bucket =
  key :: string
  doc_count :: "int option"
  api_name_keys :: "string list"
  by_hour :: "hour_bucket list"
  unique_ips_value :: "int option"
  unique_users_value :: "int option"
  top_ips_buckets :: "(string \<times> int) list"
  top_users_buckets :: "(string \<times> int) list"
  avg_response_time_value :: "rat option"
  status_code_buckets :: "(int \<times> int) list"
  error_doc_count :: "int option"

definition or_zero :: "'a::zero option \<Rightarrow> 'a" where
  "or_zero v = (case v of None \<Rightarrow> 0 | Some n \<Rightarrow> n)"

subsection \<open>\<open>_parse_traffic_stats\<close>\<close>

text \<open>
  A \<open>datetime\<close> is its number of microseconds since the epoch;
  \<open>max((end_date - start_date).total_seconds() / 3600, 1)\<close>.
\<close>

definition hours_diff :: "int \<Rightarrow> int \<Rightarrow> rat" where
  "hours_diff start_date end_date = max (of_int (end_date - start_date) / 1000000 / 3600) 1"

text \<open>\<open>max(hourly_buckets, key=...)\<close>: the first bucket with the largest count.\<close>

fun peak_bucket :: "hour_bucket list \<Rightarrow> hour_bucket option" where
  "peak_bucket [] = None"
| "peak_bucket (b # bs) =
     Some (fold (\<lambda>x best. if or_zero (h_doc_count best) < or_zero (h_doc_count x) then x else best)
             bs b)"

text \<open>
  The hour in a time stamp: the text between the first \<open>T\<close> (or, without a \<open>T\<close>, the
  first blank) and the next colon, read by \<open>int\<close>. \<open>None\<close> is the exception the
  \<open>try\<close> swallows. The value is not compared with 0 and 23.
\<close>

definition hour_of :: "string \<Rightarrow> int option" where
  "hour_of timestamp =
     (case split_on (if CHR ''T'' \<in> set timestamp then CHR ''T'' else CHR '' '') timestamp of
        _ # p # _ \<Rightarrow> (case split_on CHR '':'' p of q # _ \<Rightarrow> int_of_str q | [] \<Rightarrow> None)
      | _ \<Rightarrow> None)"

text \<open>\<open>hourly_distribution[hour] += count\<close> on a \<open>defaultdict(int)\<close>.\<close>

definition add_count :: "int \<Rightarrow> int \<Rightarrow> (int \<times> int) list \<Rightarrow> (int \<times> int) list" where
  "add_count hour n hist = AList.update hour (or_zero (map_of hist hour) + n) hist"

definition hourly_distribution :: "hour_bucket list \<Rightarrow> (int \<times> int) list" where
  "hourly_distribution hourly =
     fold (\<lambda>b hist.
            case key_as_string b of
              None \<Rightarrow> hist
            | Some timestamp \<Rightarrow>
                if timestamp = [] then hist
                else (case hour_of timestamp of
                        None \<Rightarrow> hist
                      | Some hour \<Rightarrow> add_count hour (or_zero (h_doc_count b)) hist))
          hourly []"

text \<open>
  \<open>sorted(items, key=lambda x: x[1], reverse=True)[:5]\<close>, a stable sort, then
  \<open>sorted(peak_hours)\<close>.
\<close>

definition top_hours :: "(int \<times> int) list \<Rightarrow> int list" where
  "top_hours hist = sort (map fst (take 5 (sort_key (\<lambda>(h, n). - n) hist)))"

definition parse_bucket :: "int \<Rightarrow> int \<Rightarrow> api_bucket \<Rightarrow> traffic_stats" where
  "parse_bucket start_date end_date bucket =
     (let n = or_zero (doc_count bucket);
          hourly = by_hour bucket;
          max_per_hour = (if hourly = [] then 0 else py_max (map (\<lambda>b. or_zero (h_doc_count b)) hourly));
          avg_response_time = or_zero (avg_response_time_value bucket);
          errors = or_zero (error_doc_count bucket);
          rate = (if 0 < n then of_int errors / of_int n * 100 else 0)
      in \<lparr>api_name = (case api_name_keys bucket of [] \<Rightarrow> ''Unknown'' | k # _ \<Rightarrow> k),
          total_requests = n,
          avg_requests_per_hour = py_round 2 (of_int n / hours_diff start_date end_date),
          max_requests_per_hour = max_per_hour,
          max_requests_per_minute =
            (if 0 < max_per_hour then py_int (of_int max_per_hour / 60 * (3 / 2)) else 0),
          peak_hour = (case peak_bucket hourly of None \<Rightarrow> None | Some b \<Rightarrow> key_as_string b),
          peak_hours = top_hours (hourly_distribution hourly),
          unique_ips = or_zero (unique_ips_value bucket),
          unique_users = or_zero (unique_users_value bucket),
          top_ips = take 5 (top_ips_buckets bucket),
          top_users = take 5 (top_users_buckets bucket),
          avg_response_time_ms = (if avg_response_time = 0 then 0 else py_round 2 avg_response_time),
          status_codes = fold (\<lambda>(code, k) m. AList.update code k m) (status_code_buckets bucket) [],
          error_count = errors,
          error_rate = py_round 2 rate,
          success_rate = py_round 2 (100 - rate)\<rparr>)"

text \<open>The loop over the API buckets: \<open>stats[api_id] = {...}\<close>.\<close>

definition parse_traffic_stats :: "api_bucket list \<Rightarrow> int \<Rightarrow> int \<Rightarrow> (string \<times> traffic_stats) list" where
  "parse_traffic_stats api_buckets start_date end_date =
     fold (\<lambda>bucket stats. AList.update (key bucket) (parse_bucket start_date end_date bucket) stats)
       api_buckets []"



subsection \<open>\<open>check_sensitive_fields\<close>\<close>

text \<open>The keyword file: absent, readable with its content, or raising when read.\<close>

datatype keywords_file = FileMissing | FileContent string | FileUnreadable string

definition default_keywords :: "string list" where
  "default_keywords = [''tc'', ''kimlik'', ''tel'', ''telefon'', ''sifre'', ''password'']"

definition load_keywords :: "string \<Rightarrow> string list" where
  "load_keywords raw =
     (let content = strip raw;
          sep = (if CHR '','' \<in> set content then CHR '','' else CHR 0x0A)
      in map (\<lambda>kw. lower (strip kw)) (filter (\<lambda>kw. strip kw \<noteq> []) (split_on sep content)))"

text \<open>
  One fetched log record: \<open>_source.fcrh\<close> and \<open>_source.fcrb\<close>, each possibly absent. A
  field that is present is text, which \<open>str\<close> leaves as it is.
\<close>

record log_hit =
  fcrh :: "string option"
  fcrb :: "string option"

text \<open>
  The reply to the search for recent records: \<open>requests.post\<close> raises, or answers with
  a status code and a body that \<open>response.json()\<close> either rejects or reads as the hits.
\<close>

datatype reply_body = BadJson string | Hits "log_hit list"

datatype search_reply = PostRaised string | Reply int reply_body

text \<open>
  \<open>keyword_counts\<close>: per keyword the triple \<open>(count, in_headers, in_body)\<close>, a dictionary
  built from the keyword list; the two nested loops visit every keyword of the
  \<^emph>\<open>list\<close> for every hit.
\<close>

definition blob :: "string option \<Rightarrow> string" where
  "blob field = lower (case field of None \<Rightarrow> [] | Some s \<Rightarrow> s)"

definition initial_counts :: "string list \<Rightarrow> (string \<times> int \<times> int \<times> int) list" where
  "initial_counts keywords = fold (\<lambda>k m. AList.update k (0, 0, 0) m) keywords []"

definition count_hit ::
  "string list \<Rightarrow> log_hit \<Rightarrow> (string \<times> int \<times> int \<times> int) list \<Rightarrow> (string \<times> int \<times> int \<times> int) list" where
  "count_hit keywords hit counts =
     fold (\<lambda>k m.
            let found_in_headers = py_in k (blob (fcrh hit));
                found_in_body = py_in k (blob (fcrb hit))
            in if found_in_headers \<or> found_in_body
               then AList.map_entry k
                      (\<lambda>(n, h, b). (n + 1, if found_in_headers then h + 1 else h,
                                    if found_in_body then b + 1 else b)) m
               else m)
       keywords counts"

definition keyword_counts :: "string list \<Rightarrow> log_hit list \<Rightarrow> (string \<times> int \<times> int \<times> int) list" where
  "keyword_counts keywords hits = fold (count_hit keywords) hits (initial_counts keywords)"

definition keyword_percentages ::
  "int \<Rightarrow> (string \<times> int \<times> int \<times> int) list \<Rightarrow> (string \<times> keyword_info) list" where
  "keyword_percentages n counts =
     map (\<lambda>(k, c, h, b).
            (k, \<lparr>count = c,
                 percentage = py_round 2 (if 0 < n then of_int c / of_int n * 100 else 0),
                 in_headers = h, in_body = b, kw_exists = True\<rparr>))
       (filter (\<lambda>(k, c, h, b). 0 < c) counts)"

definition scan_hits :: "string list \<Rightarrow> log_hit list \<Rightarrow> sensitive_exposure" where
  "scan_hits keywords hits =
     (let found = keyword_percentages (int (length hits)) (keyword_counts keywords hits)
      in \<lparr>err = None, total_logs_checked = Some (int (length hits)),
          sensitive_keywords = Some found, has_sensitive_data = Some (found \<noteq> []),
          total_logs = None, sensitive_keywords_found = None\<rparr>)"

text \<open>The dictionary of the \<open>except\<close> clause.\<close>

definition exception_result :: "string \<Rightarrow> sensitive_exposure" where
  "exception_result e =
     \<lparr>err = Some e, total_logs_checked = Some 0, sensitive_keywords = Some [],
      has_sensitive_data = Some False, total_logs = None, sensitive_keywords_found = None\<rparr>"

text \<open>The dictionary returned when the status code is not 200.\<close>

definition status_result :: "int \<Rightarrow> sensitive_exposure" where
  "status_result status_code =
     \<lparr>err = Some (''ES query failed: '' @ show_int status_code), total_logs_checked = None,
      sensitive_keywords = None, has_sensitive_data = None,
      total_logs = Some 0, sensitive_keywords_found = Some []\<rparr>"

definition check_sensitive_fields :: "keywords_file \<Rightarrow> search_reply \<Rightarrow> sensitive_exposure" where
  "check_sensitive_fields file reply =
     (case file of
        FileUnreadable e \<Rightarrow> exception_result e
      | _ \<Rightarrow>
          (let sensitive_keywords =
                 (case file of FileContent raw \<Rightarrow> load_keywords raw | _ \<Rightarrow> default_keywords)
           in case reply of
                PostRaised e \<Rightarrow> exception_result e
              | Reply status_code body \<Rightarrow>
                  if status_code \<noteq> 200 then status_result status_code
                  else (case body of
                          BadJson e \<Rightarrow> exception_result e
                        | Hits hits \<Rightarrow> scan_hits sensitive_keywords hits)))"

section \<open>Concrete inputs\<close>

text \<open>Configurations and statistics at which the theorems below are instantiated.\<close>

definition bare_config :: api_config where
  "bare_config = \<lparr>request_policies = [], response_policies = [], error_policies = [],
     client_ssl = None, backend_ssl = None\<rparr>"

definition config_with :: "string \<Rightarrow> api_config" where
  "config_with t = bare_config\<lparr>request_policies := [\<lparr>ptype = t, enabled = Some True\<rparr>]\<rparr>"

definition stats_with :: "int \<Rightarrow> int list \<Rightarrow> scorer_stats" where
  "stats_with n hs =
     \<lparr>stats = Some \<lparr>api_name = ''orders'', total_requests = n, avg_requests_per_hour = 0,
        max_requests_per_hour = 0, max_requests_per_minute = 0, peak_hour = None,
        peak_hours = hs, unique_ips = 0, unique_users = 0, top_ips = [], top_users = [],
        avg_response_time_ms = 0, status_codes = [], error_count = 0, error_rate = 0,
        success_rate = 100\<rparr>,
      sensitive_data = None\<rparr>"




text \<open>One hourly sub-bucket, and an API bucket with a document count and hourly sub-buckets.\<close>

definition hour_at :: "string \<Rightarrow> int \<Rightarrow> hour_bucket" where
  "hour_at timestamp n = \<lparr>key_as_string = Some timestamp, h_doc_count = Some n\<rparr>"

definition bucket_with :: "int \<Rightarrow> hour_bucket list \<Rightarrow> api_bucket" where
  "bucket_with n hourly =
     \<lparr>key = ''orders'', doc_count = Some n, api_name_keys = [''Orders API''], by_hour = hourly,
      unique_ips_value = Some 0, unique_users_value = Some 0, top_ips_buckets = [],
      top_users_buckets = [], avg_response_time_value = None, status_code_buckets = [],
      error_doc_count = Some 0\<rparr>"

text \<open>The \<open>datetime\<close> 2025-11-10 \<open>h\<close>:\<open>m\<close>:00 in microseconds since the epoch.\<close>

definition nov10 :: "int \<Rightarrow> int \<Rightarrow> int" where
  "nov10 h m = (1762732800 + 3600 * h + 60 * m) * 1000000"

section \<open>Rounding\<close>


lemma round_half_even_of_int: "round_half_even (of_int n) = n"
  by (simp add: round_half_even_def)

lemma round_half_even_floor: "\<lfloor>x\<rfloor> \<le> round_half_even x \<and> round_half_even x \<le> \<lfloor>x\<rfloor> + 1"
  by (simp add: round_half_even_def Let_def)

lemma round_half_even_mono:
  assumes "x \<le> y"
  shows "round_half_even x \<le> round_half_even y"
proof (cases "\<lfloor>x\<rfloor> = \<lfloor>y\<rfloor>")
  case True
  with assms show ?thesis
    by (auto simp: round_half_even_def Let_def)
next
  case False
  with assms have "\<lfloor>x\<rfloor> + 1 \<le> \<lfloor>y\<rfloor>"
    using floor_mono [of x y] by linarith
  with round_half_even_floor [of x] round_half_even_floor [of y] show ?thesis
    by linarith
qed

lemma py_round_mono: "x \<le> y \<Longrightarrow> py_round nd x \<le> py_round nd y"
  by (simp add: py_round_def divide_right_mono round_half_even_mono mult_right_mono)

lemma py_round_of_int: "py_round nd (of_int k) = of_int k"
proof -
  have "of_int k * (10::rat) ^ nd = of_int (k * 10 ^ nd)" by simp
  then show ?thesis
    unfolding py_round_def by (simp only: round_half_even_of_int) simp
qed


section \<open>The report of \<open>calculate_api_score\<close>\<close>

lemma component_scores_calculate:
  "component_scores (calculate_api_score weights c s) =
     [(''ip_whitelist_coverage'', fst (score_ip_whitelist c s)),
      (''throttling_configured'', fst (score_throttling c s)),
      (''quota_configured'', fst (score_quota c s)),
      (''authentication_strength'', fst (score_authentication c)),
      (''allowed_hours'', fst (score_allowed_hours c s)),
      (''traffic_anomaly'', fst (score_traffic_anomaly s)),
      (''error_rate'', fst (score_error_rate s)),
      (''ssl_tls_status'', fst (score_ssl_tls c)),
      (''logging_status'', fst (score_logging c s))]"
  by (simp add: calculate_api_score_def components_def Let_def case_prod_unfold)








section \<open>Authentication strength\<close>

text \<open>
  Without an enabled authentication policy the score is 0 with one critical
  recommendation; with one, OAuth2, JWT and mTLS give 100, the generic API authentication
  75 and Basic authentication 50 with a medium recommendation.
\<close>

lemma score_authentication_no_policy:
  assumes "auth_policies c = []"
  shows "fst (score_authentication c) = 0"
    and "map severity (snd (score_authentication c)) = [''critical'']"
  using assms by (simp_all add: score_authentication_def)

lemma score_authentication_ranking:
  assumes "auth_policies c \<noteq> []"
  defines "ts \<equiv> ptype ` set (auth_policies c)"
  shows "''PolicyOauth2Authentication'' \<in> ts \<or> ''PolicyJwtAuthentication'' \<in> ts
           \<or> ''PolicyMTLSAuthentication'' \<in> ts
         \<Longrightarrow> score_authentication c = (100, [])"
    and "''PolicyOauth2Authentication'' \<notin> ts \<Longrightarrow> ''PolicyJwtAuthentication'' \<notin> ts
         \<Longrightarrow> ''PolicyMTLSAuthentication'' \<notin> ts \<Longrightarrow> ''PolicyApiAuthentication'' \<in> ts
         \<Longrightarrow> score_authentication c = (75, [])"
    and "''PolicyOauth2Authentication'' \<notin> ts \<Longrightarrow> ''PolicyJwtAuthentication'' \<notin> ts
         \<Longrightarrow> ''PolicyMTLSAuthentication'' \<notin> ts \<Longrightarrow> ''PolicyApiAuthentication'' \<notin> ts
         \<Longrightarrow> ''PolicyBasicAuthentication'' \<in> ts
         \<Longrightarrow> fst (score_authentication c) = 50
             \<and> map severity (snd (score_authentication c)) = [''medium'']"
  using assms(1) unfolding ts_def score_authentication_def Let_def
  by auto

text \<open>
  C1. The claim has the score nonzero whenever an enabled authentication-class policy
  exists, Digest included. \<open>PolicyDigestAuthentication\<close> is in the list of
  authentication types, but no branch of the ranking names it: a configuration whose only
  enabled authentication policy is Digest has a non-empty list of authentication policies
  and still scores 0, with no recommendation at all.
\<close>

theorem digest_only_authentication_scores_zero:
  "auth_policies (config_with ''PolicyDigestAuthentication'') \<noteq> []
   \<and> score_authentication (config_with ''PolicyDigestAuthentication'') = (0, [])
   \<and> map_of (component_scores
        (calculate_api_score weights (config_with ''PolicyDigestAuthentication'') s))
        ''authentication_strength'' = Some 0"
proof -
  have a: "auth_policies (config_with ''PolicyDigestAuthentication'') \<noteq> []"
    by code_simp
  have b: "score_authentication (config_with ''PolicyDigestAuthentication'') = (0, [])"
    by code_simp
  show ?thesis
    using a b by (simp add: component_scores_calculate)
qed

section \<open>Security level and total score\<close>







section \<open>Allowed hours\<close>

text \<open>
  C4 (amended). With an enabled allowed-hours policy the component is 100 with no
  recommendation. Without one it is 100 with no recommendation unless \<open>total_requests\<close>
  exceeds 100 and \<open>peak_hours\<close> is non-empty; in that case it is 70 with one low
  recommendation if every peak hour lies in 8..18, else 75 with one low recommendation if
  there are at most 8 peak hours, and 100 with no recommendation otherwise.
\<close>

theorem allowed_hours_score:
  fixes c s
  defines "n \<equiv> stat total_requests 0 s"
  defines "hs \<equiv> stat peak_hours [] s"
  defines "restricted \<equiv> has_policy [''PolicyAllowedHours''] c"
  defines "res \<equiv> score_allowed_hours c s"
  shows "(restricted \<longrightarrow> res = (100, []))
    \<and> (\<not> restricted \<and> \<not> (100 < n \<and> hs \<noteq> []) \<longrightarrow> res = (100, []))
    \<and> (\<not> restricted \<and> 100 < n \<and> hs \<noteq> [] \<and> list_all (\<lambda>h. 8 \<le> h \<and> h \<le> 18) hs
         \<longrightarrow> fst res = 70 \<and> map severity (snd res) = [''low''])
    \<and> (\<not> restricted \<and> 100 < n \<and> hs \<noteq> [] \<and> \<not> list_all (\<lambda>h. 8 \<le> h \<and> h \<le> 18) hs
           \<and> length hs \<le> 8
         \<longrightarrow> fst res = 75 \<and> map severity (snd res) = [''low''])
    \<and> (\<not> restricted \<and> 100 < n \<and> hs \<noteq> [] \<and> \<not> list_all (\<lambda>h. 8 \<le> h \<and> h \<le> 18) hs
           \<and> 8 < length hs
         \<longrightarrow> res = (100, []))"
proof -
  have b: "in_business_hours hs = list_all (\<lambda>h. 8 \<le> h \<and> h \<le> 18) hs"
    unfolding in_business_hours_def by (rule arg_cong [where f = "\<lambda>p. list_all p hs"]) auto
  show ?thesis
    unfolding res_def score_allowed_hours_def Let_def b [symmetric]
      n_def [symmetric] hs_def [symmetric] restricted_def [symmetric]
    by simp
qed

text \<open>Instances of the 70, the policy and the 75 case.\<close>

theorem allowed_hours_score_witness:
  "\<not> has_policy [''PolicyAllowedHours''] bare_config
   \<and> 100 < stat total_requests 0 (stats_with 500 [9, 10, 14])
   \<and> stat peak_hours [] (stats_with 500 [9, 10, 14]) \<noteq> []
   \<and> list_all (\<lambda>h. 8 \<le> h \<and> h \<le> 18) (stat peak_hours [] (stats_with 500 [9, 10, 14]))
   \<and> fst (score_allowed_hours bare_config (stats_with 500 [9, 10, 14])) = 70
   \<and> map severity (snd (score_allowed_hours bare_config (stats_with 500 [9, 10, 14]))) = [''low'']
   \<and> has_policy [''PolicyAllowedHours''] (config_with ''PolicyAllowedHours'')
   \<and> score_allowed_hours (config_with ''PolicyAllowedHours'') (stats_with 500 [9, 10, 14]) = (100, [])
   \<and> \<not> list_all (\<lambda>h. 8 \<le> h \<and> h \<le> 18) (stat peak_hours [] (stats_with 101 [22, 23, 0]))
   \<and> 100 < stat total_requests 0 (stats_with 101 [22, 23, 0])
   \<and> length (stat peak_hours [] (stats_with 101 [22, 23, 0])) \<le> 8
   \<and> fst (score_allowed_hours bare_config (stats_with 101 [22, 23, 0])) = 75
   \<and> map severity (snd (score_allowed_hours bare_config (stats_with 101 [22, 23, 0]))) = [''low'']"
proof -
  have h: "\<not> has_policy [''PolicyAllowedHours''] bare_config"
    "100 < stat total_requests 0 (stats_with 500 [9, 10, 14])"
    "stat peak_hours [] (stats_with 500 [9, 10, 14]) \<noteq> []"
    "list_all (\<lambda>h. 8 \<le> h \<and> h \<le> 18) (stat peak_hours [] (stats_with 500 [9, 10, 14]))"
    by code_simp+
  have g: "has_policy [''PolicyAllowedHours''] (config_with ''PolicyAllowedHours'')"
    by code_simp
  have k: "\<not> list_all (\<lambda>h. 8 \<le> h \<and> h \<le> 18) (stat peak_hours [] (stats_with 101 [22, 23, 0]))"
    "100 < stat total_requests 0 (stats_with 101 [22, 23, 0])"
    "stat peak_hours [] (stats_with 101 [22, 23, 0]) \<noteq> []"
    "length (stat peak_hours [] (stats_with 101 [22, 23, 0])) \<le> 8"
    by code_simp+
  from allowed_hours_score [of bare_config "stats_with 500 [9, 10, 14]"] h
  have a: "fst (score_allowed_hours bare_config (stats_with 500 [9, 10, 14])) = 70
    \<and> map severity (snd (score_allowed_hours bare_config (stats_with 500 [9, 10, 14]))) = [''low'']"
    by blast
  from allowed_hours_score [of "config_with ''PolicyAllowedHours''" "stats_with 500 [9, 10, 14]"] g
  have b: "score_allowed_hours (config_with ''PolicyAllowedHours'') (stats_with 500 [9, 10, 14]) = (100, [])"
    by blast
  from allowed_hours_score [of bare_config "stats_with 101 [22, 23, 0]"] h(1) k
  have c: "fst (score_allowed_hours bare_config (stats_with 101 [22, 23, 0])) = 75
    \<and> map severity (snd (score_allowed_hours bare_config (stats_with 101 [22, 23, 0]))) = [''low'']"
    by blast
  from h g k a b c show ?thesis by blast
qed

text \<open>
  C4 as stated fails at exactly 100 requests: the test is \<open>total_requests > 100\<close>, so a
  peak hour inside business hours leaves the score at 100 without a recommendation.
\<close>

theorem allowed_hours_at_100_requests_counterexample:
  "\<not> has_policy [''PolicyAllowedHours''] bare_config
   \<and> 100 \<le> stat total_requests 0 (stats_with 100 [9])
   \<and> stat peak_hours [] (stats_with 100 [9]) \<noteq> []
   \<and> list_all (\<lambda>h. 8 \<le> h \<and> h \<le> 18) (stat peak_hours [] (stats_with 100 [9]))
   \<and> score_allowed_hours bare_config (stats_with 100 [9]) = (100, [])"
  by code_simp

section \<open>Aggregation: auxiliary facts\<close>

text \<open>\<open>max\<close> over a non-empty list bounds every element.\<close>

lemma py_max_Max: "xs \<noteq> [] \<Longrightarrow> py_max xs = Max (set xs)"
proof (cases xs)
  case Nil
  then show "xs \<noteq> [] \<Longrightarrow> ?thesis" by simp
next
  case (Cons a list)
  show ?thesis
    unfolding Cons py_max.simps by (rule Max.set_eq_fold [symmetric])
qed

lemma py_max_ge: "x \<in> set xs \<Longrightarrow> x \<le> py_max xs"
  by (cases "xs = []") (simp_all add: py_max_Max)

lemma sum_list_le_length_times:
  fixes xs :: "int list"
  assumes "\<forall>x\<in>set xs. x \<le> m"
  shows "sum_list xs \<le> int (length xs) * m"
  using assms by (induction xs) (auto simp: algebra_simps)

text \<open>The number of hours is at least 1, and exactly 1 for a range of at most one hour.\<close>

lemma hours_diff_ge_1: "1 \<le> hours_diff start_date end_date"
  by (simp add: hours_diff_def)


text \<open>Fields of the record built for one bucket.\<close>

lemma parse_bucket_total [simp]:
  "total_requests (parse_bucket start_date end_date b) = or_zero (doc_count b)"
  by (simp add: parse_bucket_def Let_def)

lemma parse_bucket_avg:
  "avg_requests_per_hour (parse_bucket start_date end_date b)
     = py_round 2 (of_int (or_zero (doc_count b)) / hours_diff start_date end_date)"
  by (simp add: parse_bucket_def Let_def)

lemma parse_bucket_max:
  "max_requests_per_hour (parse_bucket start_date end_date b)
     = (if by_hour b = [] then 0 else py_max (map (\<lambda>h. or_zero (h_doc_count h)) (by_hour b)))"
  by (simp add: parse_bucket_def Let_def)

lemma parse_bucket_rates:
  "or_zero (doc_count b) = 0
   \<Longrightarrow> error_rate (parse_bucket start_date end_date b) = 0
       \<and> success_rate (parse_bucket start_date end_date b) = 100"
  using py_round_of_int [of 2 0] py_round_of_int [of 2 100]
  by (simp add: parse_bucket_def Let_def)

lemma parse_bucket_no_hours:
  "by_hour b = []
   \<Longrightarrow> max_requests_per_hour (parse_bucket start_date end_date b) = 0
       \<and> max_requests_per_minute (parse_bucket start_date end_date b) = 0
       \<and> peak_hour (parse_bucket start_date end_date b) = None
       \<and> peak_hours (parse_bucket start_date end_date b) = []"
  by (simp add: parse_bucket_def Let_def hourly_distribution_def top_hours_def)

lemma parse_bucket_passed_through:
  "unique_ips (parse_bucket start_date end_date b) = or_zero (unique_ips_value b)
   \<and> unique_users (parse_bucket start_date end_date b) = or_zero (unique_users_value b)
   \<and> error_count (parse_bucket start_date end_date b) = or_zero (error_doc_count b)
   \<and> avg_response_time_ms (parse_bucket start_date end_date b)
       = py_round 2 (or_zero (avg_response_time_value b))"
  using py_round_of_int [of 2 0]
  by (simp add: parse_bucket_def Let_def)


text \<open>The dictionary built by the loop over the buckets: the last bucket of a key wins.\<close>

lemma map_of_fold_update_other:
  "k \<notin> key ` set bs
   \<Longrightarrow> map_of (fold (\<lambda>b m. AList.update (key b) (f b) m) bs acc) k = map_of acc k"
  by (induction bs arbitrary: acc) (simp_all add: update_conv')

lemma map_of_fold_update:
  "b \<in> set bs \<Longrightarrow> distinct (map key bs)
   \<Longrightarrow> map_of (fold (\<lambda>b m. AList.update (key b) (f b) m) bs acc) (key b) = Some (f b)"
proof (induction bs arbitrary: acc)
  case Nil
  then show ?case by simp
next
  case (Cons a bs)
  show ?case
  proof (cases "b = a")
    case True
    with Cons.prems(2) have "key b \<notin> key ` set bs" by auto
    with True show ?thesis
      by (simp add: map_of_fold_update_other update_conv')
  next
    case False
    with Cons show ?thesis by simp
  qed
qed

lemma keys_update: "fst ` set (AList.update k v al) = insert k (fst ` set al)"
  by (induction al) auto

lemma dom_fold_update:
  "fst ` set (fold (\<lambda>b m. AList.update (key b) (f b) m) bs acc) = fst ` set acc \<union> key ` set bs"
  by (induction bs arbitrary: acc) (simp_all add: keys_update)

section \<open>Average and maximum requests per hour\<close>

text \<open>
  C5 (amended). For a record with \<open>total_requests > 0\<close> whose hourly sub-bucket counts add
  up to \<open>total_requests\<close> and whose hourly sub-buckets number at most
  \<open>max(hours_between(start, end), 1)\<close>, \<open>max_requests_per_hour\<close> is at least
  \<open>avg_requests_per_hour\<close>.
\<close>

theorem max_per_hour_bounds_avg:
  fixes start_date end_date b
  defines "r \<equiv> parse_bucket start_date end_date b"
  assumes pos: "0 < total_requests r"
    and sum: "sum_list (map (\<lambda>h. or_zero (h_doc_count h)) (by_hour b)) = total_requests r"
    and len: "of_nat (length (by_hour b)) \<le> hours_diff start_date end_date"
  shows "avg_requests_per_hour r \<le> of_int (max_requests_per_hour r)"
proof -
  define n where "n = or_zero (doc_count b)"
  define cs where "cs = map (\<lambda>h. or_zero (h_doc_count h)) (by_hour b)"
  define m where "m = py_max cs"
  define H where "H = hours_diff start_date end_date"
  have n: "total_requests r = n"
    by (simp add: r_def n_def)
  from pos sum n have "by_hour b \<noteq> []"
    by auto
  then have m: "max_requests_per_hour r = m"
    by (simp add: r_def parse_bucket_max m_def cs_def)
  have "\<forall>x\<in>set cs. x \<le> m"
    by (simp add: m_def py_max_ge)
  then have "sum_list cs \<le> int (length cs) * m"
    by (rule sum_list_le_length_times)
  with sum n have bound: "n \<le> int (length cs) * m"
    by (simp add: cs_def)
  with pos n have "0 < int (length cs) * m"
    by linarith
  then have "0 < m"
    by (simp add: zero_less_mult_iff)
  from len have "of_nat (length cs) \<le> H"
    by (simp add: cs_def H_def)
  with \<open>0 < m\<close> have "of_nat (length cs) * of_int m \<le> H * (of_int m :: rat)"
    by (simp add: mult_right_mono)
  moreover from bound have "(of_int n :: rat) \<le> of_int (int (length cs) * m)"
    by (simp only: of_int_le_iff)
  ultimately have "(of_int n :: rat) \<le> H * of_int m"
    by simp
  moreover have "0 < H"
    using hours_diff_ge_1 [of start_date end_date] by (simp add: H_def)
  ultimately have "of_int n / H \<le> (of_int m :: rat)"
    by (simp add: field_simps)
  then have "py_round 2 (of_int n / H) \<le> py_round 2 (of_int m)"
    by (rule py_round_mono)
  then show ?thesis
    by (simp add: r_def parse_bucket_avg n_def [symmetric] H_def [symmetric] m [unfolded r_def]
        py_round_of_int)
qed

text \<open>An instance: the range from 10:00 to 12:00 with 50 requests in each of its two hours.\<close>

theorem max_per_hour_bounds_avg_witness:
  "0 < total_requests (parse_bucket (nov10 10 0) (nov10 12 0)
         (bucket_with 100 [hour_at ''2025-11-10T10:00:00.000Z'' 50, hour_at ''2025-11-10T11:00:00.000Z'' 50]))
   \<and> avg_requests_per_hour (parse_bucket (nov10 10 0) (nov10 12 0)
         (bucket_with 100 [hour_at ''2025-11-10T10:00:00.000Z'' 50, hour_at ''2025-11-10T11:00:00.000Z'' 50]))
       \<le> of_int (max_requests_per_hour (parse_bucket (nov10 10 0) (nov10 12 0)
         (bucket_with 100 [hour_at ''2025-11-10T10:00:00.000Z'' 50, hour_at ''2025-11-10T11:00:00.000Z'' 50])))"
proof -
  let ?b = "bucket_with 100 [hour_at ''2025-11-10T10:00:00.000Z'' 50, hour_at ''2025-11-10T11:00:00.000Z'' 50]"
  have h1: "0 < total_requests (parse_bucket (nov10 10 0) (nov10 12 0) ?b)"
    by code_simp
  have h2: "sum_list (map (\<lambda>h. or_zero (h_doc_count h)) (by_hour ?b))
      = total_requests (parse_bucket (nov10 10 0) (nov10 12 0) ?b)"
    by code_simp
  have h3: "of_nat (length (by_hour ?b)) \<le> hours_diff (nov10 10 0) (nov10 12 0)"
    by code_simp
  from max_per_hour_bounds_avg [OF h1 h2 h3] h1 show ?thesis
    by blast
qed

text \<open>
  C5 as stated fails: the range from 10:30 to 11:30 is one hour long and touches the
  histogram hours 10:00 and 11:00; with 50 requests in each, the average is 100 and the
  maximum 50.
\<close>

theorem max_per_hour_below_avg_counterexample:
  "0 < total_requests (parse_bucket (nov10 10 30) (nov10 11 30)
         (bucket_with 100 [hour_at ''2025-11-10T10:00:00.000Z'' 50, hour_at ''2025-11-10T11:00:00.000Z'' 50]))
   \<and> avg_requests_per_hour (parse_bucket (nov10 10 30) (nov10 11 30)
         (bucket_with 100 [hour_at ''2025-11-10T10:00:00.000Z'' 50, hour_at ''2025-11-10T11:00:00.000Z'' 50]))
       = 100
   \<and> max_requests_per_hour (parse_bucket (nov10 10 30) (nov10 11 30)
         (bucket_with 100 [hour_at ''2025-11-10T10:00:00.000Z'' 50, hour_at ''2025-11-10T11:00:00.000Z'' 50]))
       = 50"
  by code_simp

section \<open>Buckets without documents\<close>

text \<open>
  C6 (amended). A bucket whose document count is 0 still has its key in the result, and
  with distinct bucket keys the record stored there is the one built from it. That record
  has \<open>total_requests = 0\<close>, \<open>avg_requests_per_hour = 0\<close>, \<open>error_rate = 0\<close> and
  \<open>success_rate = 100\<close>. When its hourly histogram has no sub-bucket, the two maxima are 0,
  \<open>peak_hour\<close> is absent and \<open>peak_hours\<close> is empty. The unique counts, the error count and
  the response time are those of the bucket's own sub-aggregations.
\<close>

theorem zero_document_bucket:
  fixes start_date end_date b api_buckets
  defines "r \<equiv> parse_bucket start_date end_date b"
  assumes zero: "or_zero (doc_count b) = 0"
  shows "(b \<in> set api_buckets
          \<longrightarrow> key b \<in> fst ` set (parse_traffic_stats api_buckets start_date end_date))
    \<and> (b \<in> set api_buckets \<and> distinct (map key api_buckets)
          \<longrightarrow> map_of (parse_traffic_stats api_buckets start_date end_date) (key b) = Some r)
    \<and> total_requests r = 0 \<and> avg_requests_per_hour r = 0
    \<and> error_rate r = 0 \<and> success_rate r = 100
    \<and> (by_hour b = []
          \<longrightarrow> max_requests_per_hour r = 0 \<and> max_requests_per_minute r = 0
              \<and> peak_hour r = None \<and> peak_hours r = [])
    \<and> unique_ips r = or_zero (unique_ips_value b)
    \<and> unique_users r = or_zero (unique_users_value b)
    \<and> error_count r = or_zero (error_doc_count b)
    \<and> avg_response_time_ms r = py_round 2 (or_zero (avg_response_time_value b))"
proof -
  have yielded: "key b \<in> fst ` set (parse_traffic_stats api_buckets start_date end_date)"
    if "b \<in> set api_buckets"
    using that unfolding parse_traffic_stats_def dom_fold_update by simp
  have found: "map_of (parse_traffic_stats api_buckets start_date end_date) (key b) = Some r"
    if "b \<in> set api_buckets" "distinct (map key api_buckets)"
    unfolding parse_traffic_stats_def r_def using that by (rule map_of_fold_update)
  have avg: "avg_requests_per_hour r = 0"
    using py_round_of_int [of 2 0] by (simp add: r_def parse_bucket_avg zero)
  have tot: "total_requests r = 0"
    by (simp add: r_def zero)
  from yielded found tot avg parse_bucket_rates [OF zero, of start_date end_date]
    parse_bucket_no_hours [of b start_date end_date]
    parse_bucket_passed_through [of start_date end_date b]
  show ?thesis
    unfolding r_def by blast
qed

text \<open>An instance: the only bucket, with no documents and no hourly sub-buckets.\<close>

theorem zero_document_bucket_witness:
  "or_zero (doc_count (bucket_with 0 [])) = 0
   \<and> bucket_with 0 [] \<in> set [bucket_with 0 []]
   \<and> distinct (map key [bucket_with 0 []])
   \<and> by_hour (bucket_with 0 []) = []
   \<and> map_of (parse_traffic_stats [bucket_with 0 []] (nov10 0 0) (nov10 24 0)) (key (bucket_with 0 []))
       = Some (parse_bucket (nov10 0 0) (nov10 24 0) (bucket_with 0 []))
   \<and> total_requests (parse_bucket (nov10 0 0) (nov10 24 0) (bucket_with 0 [])) = 0
   \<and> success_rate (parse_bucket (nov10 0 0) (nov10 24 0) (bucket_with 0 [])) = 100
   \<and> peak_hour (parse_bucket (nov10 0 0) (nov10 24 0) (bucket_with 0 [])) = None
   \<and> peak_hours (parse_bucket (nov10 0 0) (nov10 24 0) (bucket_with 0 [])) = []"
proof -
  have h: "or_zero (doc_count (bucket_with 0 [])) = 0"
    "bucket_with 0 [] \<in> set [bucket_with 0 []]"
    "distinct (map key [bucket_with 0 []])"
    "by_hour (bucket_with 0 []) = []"
    by (simp_all add: bucket_with_def or_zero_def)
  from zero_document_bucket [OF h(1), of "[bucket_with 0 []]" "nov10 0 0" "nov10 24 0"] h
  show ?thesis by blast
qed

text \<open>
  C6 as stated fails: the peak fields are read from the hourly sub-buckets whatever the
  document count. One empty sub-bucket at 14:00 gives a \<open>peak_hour\<close> and the
  \<open>peak_hours\<close> \<open>[14]\<close>.
\<close>

theorem zero_document_bucket_counterexample:
  "or_zero (doc_count (bucket_with 0 [hour_at ''2025-11-10T14:00:00.000Z'' 0])) = 0
   \<and> peak_hour (parse_bucket (nov10 0 0) (nov10 24 0) (bucket_with 0 [hour_at ''2025-11-10T14:00:00.000Z'' 0]))
       = Some ''2025-11-10T14:00:00.000Z''
   \<and> peak_hours (parse_bucket (nov10 0 0) (nov10 24 0) (bucket_with 0 [hour_at ''2025-11-10T14:00:00.000Z'' 0]))
       = [14]"
  by code_simp

section \<open>Reversed date ranges\<close>




section \<open>Peak hours\<close>

text \<open>
  \<open>peak_hours\<close> is sorted, has at most five entries, and these are distinct keys of the
  hour-of-day histogram. An hour that is not selected has no larger count than one that is.
\<close>

lemma top_hours_sorted: "sorted (top_hours d)"
  by (simp add: top_hours_def)

lemma top_hours_length: "length (top_hours d) \<le> 5"
  by (simp add: top_hours_def)

lemma distinct_add_count: "distinct (map fst d) \<Longrightarrow> distinct (map fst (add_count h n d))"
  by (simp add: add_count_def distinct_update)

lemma distinct_hourly_distribution_fold:
  "distinct (map fst acc)
   \<Longrightarrow> distinct (map fst (fold (\<lambda>b hist.
            case key_as_string b of
              None \<Rightarrow> hist
            | Some timestamp \<Rightarrow>
                if timestamp = [] then hist
                else (case hour_of timestamp of
                        None \<Rightarrow> hist
                      | Some hour \<Rightarrow> add_count hour (or_zero (h_doc_count b)) hist)) hourly acc))"
  by (induction hourly arbitrary: acc) (auto simp: distinct_add_count split: option.splits)

lemma distinct_hourly_distribution: "distinct (map fst (hourly_distribution hourly))"
  unfolding hourly_distribution_def by (rule distinct_hourly_distribution_fold) simp

lemma distinct_map_fst_sort_key:
  "distinct (map fst (sort_key f d)) = distinct (map fst d)"
  by (simp add: distinct_map)

lemma top_hours_distinct:
  assumes "distinct (map fst d)"
  shows "distinct (top_hours d)"
proof -
  from assms have "distinct (map fst (sort_key (\<lambda>(h, n). - n) d))"
    by (simp only: distinct_map_fst_sort_key)
  then have "distinct (take 5 (map fst (sort_key (\<lambda>(h, n). - n) d)))"
    by (rule distinct_take)
  then show ?thesis
    by (simp add: top_hours_def take_map)
qed

lemma top_hours_selection:
  assumes keys: "distinct (map fst d)"
    and sel: "(h, n) \<in> set d" "h \<in> set (top_hours d)"
    and rest: "(h', n') \<in> set d" "h' \<notin> set (top_hours d)"
  shows "n' \<le> n"
proof -
  define ys where "ys = sort_key (\<lambda>(h, n). - n) d"
  have top: "set (top_hours d) = fst ` set (take 5 ys)"
    by (simp add: top_hours_def ys_def)
  have ys: "set ys = set d" "distinct (map fst ys)"
    using keys by (simp_all add: ys_def distinct_map_fst_sort_key)
  have "sorted (map (\<lambda>(h, n). - n) (take 5 ys @ drop 5 ys))"
    by (simp add: ys_def)
  then have ord: "\<forall>x\<in>set (take 5 ys). \<forall>y\<in>set (drop 5 ys). (\<lambda>(h, n). - n) x \<le> (\<lambda>(h, n). - n) y"
    unfolding map_append sorted_append by simp
  from sel(2) top obtain m where m: "(h, m) \<in> set (take 5 ys)"
    by auto
  then have "(h, m) \<in> set ys"
    by (rule in_set_takeD)
  with sel(1) ys have "m = n"
    by (metis eq_key_imp_eq_value)
  with m have a: "(h, n) \<in> set (take 5 ys)"
    by simp
  have split: "set ys = set (take 5 ys) \<union> set (drop 5 ys)"
    by (simp only: set_append [symmetric] append_take_drop_id)
  from rest(2) top have "(h', n') \<notin> set (take 5 ys)"
    by force
  with rest(1) ys(1) split have b: "(h', n') \<in> set (drop 5 ys)"
    by blast
  from ord a b show ?thesis
    by fastforce
qed

text \<open>
  C10. The claim has every peak hour in 0..23, malformed time stamps included. The hour
  is whatever integer stands between the \<open>T\<close> and the first colon; unlike
  \<open>get_hourly_traffic_distribution\<close>, which tests \<open>0 <= hour < 24\<close> on the same
  expression, \<open>_parse_traffic_stats\<close> stores it unchecked. A sub-bucket stamped
  \<open>2025-11-10T99:00:00.000Z\<close> gives the peak hours \<open>[99]\<close>.
\<close>

theorem peak_hours_out_of_range:
  "peak_hours (parse_bucket (nov10 0 0) (nov10 24 0) (bucket_with 5 [hour_at ''2025-11-10T99:00:00.000Z'' 5]))
     = [99]"
  by code_simp

section \<open>Sensitive keywords\<close>

text \<open>
  For a keyword list without repetition the scan is as intended: the result holds, in list
  order, the keywords that some record contains in its lower-cased header or body text;
  \<open>count\<close> is the number of such records, \<open>in_headers\<close> and \<open>in_body\<close> the numbers of
  records with the keyword in the one and in the other field, \<open>percentage\<close> the count
  over the number of records, times 100, rounded to two decimals; and
  \<open>has_sensitive_data\<close> says whether any keyword was found.
\<close>


lemma update_fresh: "k \<notin> fst ` set al \<Longrightarrow> AList.update k v al = al @ [(k, v)]"
  by (induction al) auto

lemma fold_update_fresh:
  "distinct ks \<Longrightarrow> set ks \<inter> fst ` set acc = {}
   \<Longrightarrow> fold (\<lambda>k m. AList.update k z m) ks acc = acc @ map (\<lambda>k. (k, z)) ks"
proof (induction ks arbitrary: acc)
  case Nil
  show ?case by simp
next
  case (Cons k ks)
  from Cons.prems have fresh: "k \<notin> fst ` set acc" and rest: "distinct ks" "k \<notin> set ks"
    and disj: "set ks \<inter> fst ` set acc = {}"
    by auto
  from rest(2) disj have "set ks \<inter> fst ` set (acc @ [(k, z)]) = {}"
    by auto
  with Cons.IH [OF rest(1)] fresh show ?case
    by (simp add: update_fresh)
qed

lemma initial_counts_distinct:
  "distinct ks \<Longrightarrow> initial_counts ks = map (\<lambda>k. (k, 0, 0, 0)) ks"
  using fold_update_fresh [of ks "[]" "(0, 0, 0)"] by (simp add: initial_counts_def)

lemma map_entry_tabulated:
  "distinct ks
   \<Longrightarrow> AList.map_entry k g (map (\<lambda>x. (x, f x)) ks)
       = map (\<lambda>x. (x, if x = k then g (f x) else f x)) ks"
  by (induction ks) auto

lemma fold_map_entry_tabulated:
  "distinct ks \<Longrightarrow> distinct js
   \<Longrightarrow> fold (\<lambda>k m. if P k then AList.map_entry k (G k) m else m) js (map (\<lambda>x. (x, f x)) ks)
       = map (\<lambda>x. (x, if x \<in> set js \<and> P x then G x (f x) else f x)) ks"
proof (induction js arbitrary: f)
  case Nil
  show ?case by simp
next
  case (Cons j js)
  let ?f = "\<lambda>x. if x = j \<and> P j then G j (f x) else f x"
  have "(if P j then AList.map_entry j (G j) (map (\<lambda>x. (x, f x)) ks) else map (\<lambda>x. (x, f x)) ks)
      = map (\<lambda>x. (x, ?f x)) ks"
    using Cons.prems(1) by (simp add: map_entry_tabulated)
  moreover from Cons.prems have "distinct js" "j \<notin> set js"
    by simp_all
  ultimately show ?case
    using Cons.IH [OF Cons.prems(1), of ?f] by (auto intro!: map_cong [OF refl])
qed

lemma count_hit_tabulated:
  assumes "distinct ks"
  shows "count_hit ks hit (map (\<lambda>k. (k, f k)) ks)
    = map (\<lambda>k. (k,
        if py_in k (blob (fcrh hit)) \<or> py_in k (blob (fcrb hit))
        then (case f k of (n, h, b) \<Rightarrow>
                (n + 1, if py_in k (blob (fcrh hit)) then h + 1 else h,
                 if py_in k (blob (fcrb hit)) then b + 1 else b))
        else f k)) ks"
  unfolding count_hit_def Let_def
  using fold_map_entry_tabulated [OF assms assms,
      of "\<lambda>k. py_in k (blob (fcrh hit)) \<or> py_in k (blob (fcrb hit))"
         "\<lambda>k. \<lambda>(n, h, b). (n + 1, if py_in k (blob (fcrh hit)) then h + 1 else h,
                 if py_in k (blob (fcrb hit)) then b + 1 else b)" f]
  by (auto intro!: map_cong [OF refl])

lemma fold_count_hit:
  assumes "distinct ks"
  shows "fold (count_hit ks) hits
      (map (\<lambda>k. (k, int (length (filter (\<lambda>x. py_in k (blob (fcrh x)) \<or> py_in k (blob (fcrb x))) pre)),
                    int (length (filter (\<lambda>x. py_in k (blob (fcrh x))) pre)),
                    int (length (filter (\<lambda>x. py_in k (blob (fcrb x))) pre)))) ks)
    = map (\<lambda>k. (k, int (length (filter (\<lambda>x. py_in k (blob (fcrh x)) \<or> py_in k (blob (fcrb x))) (pre @ hits))),
                    int (length (filter (\<lambda>x. py_in k (blob (fcrh x))) (pre @ hits))),
                    int (length (filter (\<lambda>x. py_in k (blob (fcrb x))) (pre @ hits))))) ks"
proof (induction hits arbitrary: pre)
  case Nil
  show ?case by simp
next
  case (Cons hit hits)
  have "count_hit ks hit
      (map (\<lambda>k. (k, int (length (filter (\<lambda>x. py_in k (blob (fcrh x)) \<or> py_in k (blob (fcrb x))) pre)),
                    int (length (filter (\<lambda>x. py_in k (blob (fcrh x))) pre)),
                    int (length (filter (\<lambda>x. py_in k (blob (fcrb x))) pre)))) ks)
    = map (\<lambda>k. (k, int (length (filter (\<lambda>x. py_in k (blob (fcrh x)) \<or> py_in k (blob (fcrb x))) (pre @ [hit]))),
                    int (length (filter (\<lambda>x. py_in k (blob (fcrh x))) (pre @ [hit]))),
                    int (length (filter (\<lambda>x. py_in k (blob (fcrb x))) (pre @ [hit]))))) ks"
    unfolding count_hit_tabulated [OF assms] by (rule map_cong [OF refl]) auto
  with Cons.IH [of "pre @ [hit]"] show ?case
    by simp
qed

lemma keyword_counts_distinct:
  assumes "distinct ks"
  shows "keyword_counts ks hits
    = map (\<lambda>k. (k, int (length (filter (\<lambda>x. py_in k (blob (fcrh x)) \<or> py_in k (blob (fcrb x))) hits)),
                    int (length (filter (\<lambda>x. py_in k (blob (fcrh x))) hits)),
                    int (length (filter (\<lambda>x. py_in k (blob (fcrb x))) hits)))) ks"
  using fold_count_hit [OF assms, of hits "[]"]
  by (simp add: keyword_counts_def initial_counts_distinct [OF assms])

lemma scan_hits_distinct_keywords:
  assumes "distinct ks"
  shows "scan_hits ks hits =
    \<lparr>err = None, total_logs_checked = Some (int (length hits)),
     sensitive_keywords = Some
       (map (\<lambda>k. (k,
           \<lparr>count = int (length (filter (\<lambda>x. py_in k (blob (fcrh x)) \<or> py_in k (blob (fcrb x))) hits)),
            percentage = py_round 2
              (of_int (int (length (filter (\<lambda>x. py_in k (blob (fcrh x)) \<or> py_in k (blob (fcrb x))) hits)))
                 / of_int (int (length hits)) * 100),
            in_headers = int (length (filter (\<lambda>x. py_in k (blob (fcrh x))) hits)),
            in_body = int (length (filter (\<lambda>x. py_in k (blob (fcrb x))) hits)),
            kw_exists = True\<rparr>))
          (filter (\<lambda>k. list_ex (\<lambda>x. py_in k (blob (fcrh x)) \<or> py_in k (blob (fcrb x))) hits) ks)),
     has_sensitive_data = Some
       (list_ex (\<lambda>k. list_ex (\<lambda>x. py_in k (blob (fcrh x)) \<or> py_in k (blob (fcrb x))) hits) ks),
     total_logs = None, sensitive_keywords_found = None\<rparr>"
proof -
  have found: "keyword_percentages (int (length hits)) (keyword_counts ks hits) =
       map (\<lambda>k. (k,
           \<lparr>count = int (length (filter (\<lambda>x. py_in k (blob (fcrh x)) \<or> py_in k (blob (fcrb x))) hits)),
            percentage = py_round 2
              (of_int (int (length (filter (\<lambda>x. py_in k (blob (fcrh x)) \<or> py_in k (blob (fcrb x))) hits)))
                 / of_int (int (length hits)) * 100),
            in_headers = int (length (filter (\<lambda>x. py_in k (blob (fcrh x))) hits)),
            in_body = int (length (filter (\<lambda>x. py_in k (blob (fcrb x))) hits)),
            kw_exists = True\<rparr>))
          (filter (\<lambda>k. list_ex (\<lambda>x. py_in k (blob (fcrh x)) \<or> py_in k (blob (fcrb x))) hits) ks)"
  proof (cases "hits = []")
    case True
    then show ?thesis
      by (simp add: keyword_percentages_def keyword_counts_distinct [OF assms] filter_map o_def)
  next
    case False
    have ne: "(filter p hits \<noteq> []) = list_ex p hits" for p :: "log_hit \<Rightarrow> bool"
      by (induction hits) auto
    from False show ?thesis
      by (simp add: keyword_percentages_def keyword_counts_distinct [OF assms] filter_map o_def ne)
  qed
  have any: "(filter p ks \<noteq> []) = list_ex p ks" for p :: "string \<Rightarrow> bool"
    by (induction ks) auto
  show ?thesis
    unfolding scan_hits_def Let_def found by (simp add: any)
qed

text \<open>
  C7. The claim has \<open>count\<close> equal to the number of sampled records that contain the
  keyword. The tallies are kept in a dictionary, one entry per distinct keyword, but the
  loop runs over the keyword list: a keyword the list holds twice is counted twice for
  every matching record. The file \<open>Password,password\<close> is read as the list
  \<open>['password', 'password']\<close>, and one record with the keyword in its headers yields count
  2, \<open>in_headers\<close> 2 and 200 percent.
\<close>

theorem repeated_keyword_counted_twice:
  "load_keywords ''Password,password'' = [''password'', ''password'']
   \<and> check_sensitive_fields (FileContent ''Password,password'')
        (Reply 200 (Hits [\<lparr>fcrh = Some ''X-Password: hunter2'', fcrb = None\<rparr>]))
     = \<lparr>err = None, total_logs_checked = Some 1,
        sensitive_keywords =
          Some [(''password'', \<lparr>count = 2, percentage = 200, in_headers = 2, in_body = 0,
                                kw_exists = True\<rparr>)],
        has_sensitive_data = Some True, total_logs = None, sensitive_keywords_found = None\<rparr>"
  by code_simp

section \<open>Failure of the search for recent records\<close>

text \<open>When the request raises, the result is the dictionary of the \<open>except\<close> clause.\<close>

lemma check_sensitive_fields_post_raised:
  "check_sensitive_fields file (PostRaised e)
     = exception_result (case file of FileUnreadable e' \<Rightarrow> e' | _ \<Rightarrow> e)"
  by (simp add: check_sensitive_fields_def split: keywords_file.splits)

lemma exception_result_shape:
  "err (exception_result e) = Some e
   \<and> total_logs_checked (exception_result e) = Some 0
   \<and> sensitive_keywords (exception_result e) = Some []
   \<and> has_sensitive_data (exception_result e) = Some False"
  by (simp add: exception_result_def)

text \<open>
  C8. The claim has both failure modes return \<open>total_logs_checked = 0\<close>, an empty
  \<open>sensitive_keywords\<close> and \<open>has_sensitive_data = false\<close>. A reply with a status other
  than 200 returns a dictionary with the keys \<open>error\<close>, \<open>total_logs\<close> and
  \<open>sensitive_keywords_found\<close> instead: the three keys of the claim are absent.
\<close>

theorem failed_status_result_lacks_keys:
  "err (check_sensitive_fields FileMissing (Reply 500 (BadJson ''Internal Server Error'')))
     = Some ''ES query failed: 500''
   \<and> total_logs_checked (check_sensitive_fields FileMissing (Reply 500 (BadJson ''Internal Server Error'')))
     = None
   \<and> sensitive_keywords (check_sensitive_fields FileMissing (Reply 500 (BadJson ''Internal Server Error'')))
     = None
   \<and> has_sensitive_data (check_sensitive_fields FileMissing (Reply 500 (BadJson ''Internal Server Error'')))
     = None
   \<and> total_logs (check_sensitive_fields FileMissing (Reply 500 (BadJson ''Internal Server Error'')))
     = Some 0
   \<and> sensitive_keywords_found
        (check_sensitive_fields FileMissing (Reply 500 (BadJson ''Internal Server Error'')))
     = Some []"
  by code_simp

end
